theory Spec2Isabelle
  imports Complex_Main
begin

section \<open>Values, errors and arrays\<close>

text \<open>
  The watermark engine of \<^verbatim>\<open>src/src/trap_managers.cpp\<close> computes with C++
  \<^verbatim>\<open>double\<close> and \<^verbatim>\<open>int\<close>.  The embedding uses \<^typ>\<open>real\<close> for
  \<^verbatim>\<open>double\<close> (round-off is not modelled) and \<^typ>\<open>int\<close> for \<^verbatim>\<open>int\<close>
  (array sizes stay far below $2^{31}$).  Two things a real number cannot do are
  written out as error values: an access to a \<^verbatim>\<open>std::valarray\<close> outside its
  bounds (undefined behaviour in C++), and a floating-point result that is not a
  finite number.
\<close>

datatype error = OutOfRange | NonFinite

definition then_do :: "error + 'a \<Rightarrow> ('a \<Rightarrow> error + 'b) \<Rightarrow> error + 'b" where
  "then_do r f = (case r of Inl e \<Rightarrow> Inl e | Inr v \<Rightarrow> f v)"

text \<open>\<^verbatim>\<open>a[i]\<close> as an r-value and \<^verbatim>\<open>a[i] = v\<close>, bounds checked.\<close>

definition rd :: "'a list \<Rightarrow> int \<Rightarrow> error + 'a" where
  "rd xs i = (if 0 \<le> i \<and> i < int (length xs) then Inr (xs ! nat i) else Inl OutOfRange)"

definition wr :: "'a list \<Rightarrow> int \<Rightarrow> 'a \<Rightarrow> error + 'a list" where
  "wr xs i v = (if 0 \<le> i \<and> i < int (length xs) then Inr (xs[nat i := v]) else Inl OutOfRange)"

text \<open>
  \<^verbatim>\<open>a[std::slice(start, len, 1)] = f(a[std::slice(start, len, 1)])\<close>, element-wise.
  The size of a \<^verbatim>\<open>std::slice\<close> is a \<^verbatim>\<open>size_t\<close>: a negative \<^verbatim>\<open>int\<close> becomes a
  huge size, which is out of range like any slice that does not fit.
\<close>

definition map_slice :: "(real \<Rightarrow> real) \<Rightarrow> real list \<Rightarrow> int \<Rightarrow> int \<Rightarrow> error + real list" where
  "map_slice f xs start len =
     (if len = 0 then Inr xs
      else if 0 \<le> start \<and> 0 < len \<and> start + len \<le> int (length xs)
      then Inr (map (\<lambda>k. if start \<le> int k \<and> int k < start + len then f (xs ! k) else xs ! k)
                  [0..<length xs])
      else Inl OutOfRange)"

text \<open>A \<^verbatim>\<open>for\<close> loop over a list of indices, stopping at the first error.\<close>

fun foldE :: "('a \<Rightarrow> 's \<Rightarrow> error + 's) \<Rightarrow> 'a list \<Rightarrow> 's \<Rightarrow> error + 's" where
  "foldE f [] s = Inr s"
| "foldE f (x # xs) s = (case f x s of Inl e \<Rightarrow> Inl e | Inr s' \<Rightarrow> foldE f xs s')"

text \<open>
  The quotient of two doubles under IEEE 754: dividing by zero raises nothing, it
  yields an infinity or a NaN.
\<close>

datatype quotient = Finite real | PlusInfinity | MinusInfinity | NaN

definition divide_double :: "real \<Rightarrow> real \<Rightarrow> quotient" where
  "divide_double a b =
     (if b \<noteq> 0 then Finite (a / b)
      else if 0 < a then PlusInfinity
      else if a < 0 then MinusInfinity
      else NaN)"

section \<open>Trap species and CCD\<close>

text \<open>
  \<^verbatim>\<open>traps.hpp\<close> and \<^verbatim>\<open>ccd.hpp\<close> are not among the sources.  Of a trap species the
  manager reads three members.
\<close>

record Trap =
  density :: real
  capture_rate :: real
  emission_rate :: real

record CCD =
  full_well_depth :: real
  well_notch_depth :: real
  well_fill_power :: real

text \<open>
  Modelled from the spec: \<^verbatim>\<open>CCD::cloud_fractional_volume_from_electrons\<close>, whose
  source is missing.  Section 3.2 gives
  \<^verbatim>\<open>clamp(((n_e - notch) / (full_well - notch))^well_fill_power, 0, 1)\<close> and
  section 4.2 adds that it is 0 for \<^verbatim>\<open>n_e <= notch\<close> and 1 for
  \<^verbatim>\<open>n_e >= full_well\<close>.
\<close>

definition cloud_fractional_volume_from_electrons :: "CCD \<Rightarrow> real \<Rightarrow> real" where
  "cloud_fractional_volume_from_electrons c n_electrons =
     (if n_electrons \<le> well_notch_depth c then 0
      else if full_well_depth c \<le> n_electrons then 1
      else max 0 (min 1
             (((n_electrons - well_notch_depth c) / (full_well_depth c - well_notch_depth c))
                powr well_fill_power c)))"

section \<open>The trap manager\<close>

record TrapManager =
  traps :: "Trap list"
  max_n_transfers :: int
  ccd :: CCD
  n_traps :: int
  n_watermarks_per_transfer :: int
  empty_watermark :: real
  n_watermarks :: int
  n_active_watermarks :: int
  i_first_active_wmk :: int
  watermark_volumes :: "real list"
  watermark_fills :: "real list"
  stored_n_active_watermarks :: int
  stored_i_first_active_wmk :: int
  stored_watermark_volumes :: "real list"
  stored_watermark_fills :: "real list"
  fill_probabilities_from_empty :: "real list"
  fill_probabilities_from_full :: "real list"
  fill_probabilities_from_release :: "real list"
  empty_probabilities_from_release :: "real list"

text \<open>
  The constructors.  Members that the C++ constructor leaves unset (the arrays are
  empty valarrays, \<^verbatim>\<open>n_watermarks\<close> and the stored counters are indeterminate) are
  empty lists and 0 here; \<^verbatim>\<open>initialise_trap_states\<close> sets all of them but the
  four probability arrays.
\<close>

definition TrapManager_new :: "Trap list \<Rightarrow> int \<Rightarrow> CCD \<Rightarrow> TrapManager" where
  "TrapManager_new ts max_n c =
     \<lparr> traps = ts, max_n_transfers = max_n, ccd = c,
       n_traps = int (length ts),
       n_watermarks_per_transfer = 2,
       empty_watermark = 0,
       n_watermarks = 0,
       n_active_watermarks = 0,
       i_first_active_wmk = 0,
       watermark_volumes = [], watermark_fills = [],
       stored_n_active_watermarks = 0, stored_i_first_active_wmk = 0,
       stored_watermark_volumes = [], stored_watermark_fills = [],
       fill_probabilities_from_empty = [], fill_probabilities_from_full = [],
       fill_probabilities_from_release = [], empty_probabilities_from_release = [] \<rparr>"

definition TrapManagerInstantCapture_new :: "Trap list \<Rightarrow> int \<Rightarrow> CCD \<Rightarrow> TrapManager" where
  "TrapManagerInstantCapture_new ts max_n c =
     (TrapManager_new ts max_n c) \<lparr> n_watermarks_per_transfer := 1 \<rparr>"

definition store_trap_states :: "TrapManager \<Rightarrow> TrapManager" where
  "store_trap_states m =
     m \<lparr> stored_n_active_watermarks := n_active_watermarks m,
         stored_i_first_active_wmk := i_first_active_wmk m,
         stored_watermark_volumes := watermark_volumes m,
         stored_watermark_fills := watermark_fills m \<rparr>"

definition restore_trap_states :: "TrapManager \<Rightarrow> TrapManager" where
  "restore_trap_states m =
     m \<lparr> n_active_watermarks := stored_n_active_watermarks m,
         i_first_active_wmk := stored_i_first_active_wmk m,
         watermark_volumes := stored_watermark_volumes m,
         watermark_fills := stored_watermark_fills m \<rparr>"

definition initialise_trap_states :: "TrapManager \<Rightarrow> TrapManager" where
  "initialise_trap_states m =
     (let n = max_n_transfers m * n_watermarks_per_transfer m + 1 in
      store_trap_states
        (m \<lparr> n_watermarks := n,
             watermark_volumes := replicate (nat n) (empty_watermark m),
             watermark_fills := replicate (nat (n_traps m * n)) (empty_watermark m) \<rparr>))"

definition reset_trap_states :: "TrapManager \<Rightarrow> TrapManager" where
  "reset_trap_states m =
     m \<lparr> n_active_watermarks := 0,
         i_first_active_wmk := 0,
         watermark_volumes := replicate (nat (n_watermarks m)) (empty_watermark m),
         watermark_fills := replicate (nat (n_traps m * n_watermarks m)) (empty_watermark m) \<rparr>"

subsection \<open>Fill probabilities\<close>

text \<open>
  The per-species expressions of \<^verbatim>\<open>set_fill_probabilities_from_dwell_time\<close>.
  \<^verbatim>\<open>exponential_factor\<close> divides by \<^verbatim>\<open>total_rate\<close>; the loop below guards the
  division.
\<close>

definition total_rate :: "Trap \<Rightarrow> real" where
  "total_rate t = capture_rate t + emission_rate t"

definition exponential_factor :: "Trap \<Rightarrow> real \<Rightarrow> real" where
  "exponential_factor t dwell_time = (1 - exp (- total_rate t * dwell_time)) / total_rate t"

definition set_fill_probabilities_from_dwell_time :: "TrapManager \<Rightarrow> real \<Rightarrow> error + TrapManager" where
  "set_fill_probabilities_from_dwell_time m dwell_time =
     (let z = replicate (nat (n_traps m)) (0::real) in
      then_do
        (foldE (\<lambda>i_trap (fe, ff, fr, er).
             then_do (rd (traps m) i_trap) (\<lambda>t.
             if total_rate t = 0 then Inl NonFinite else
             then_do (wr fe i_trap
                        (if capture_rate t = 0 then 1
                         else capture_rate t * exponential_factor t dwell_time)) (\<lambda>fe'.
             then_do (wr ff i_trap (1 - emission_rate t * exponential_factor t dwell_time)) (\<lambda>ff'.
             then_do (wr fr i_trap (exp (- emission_rate t * dwell_time))) (\<lambda>fr'.
             then_do (rd fr' i_trap) (\<lambda>r.
             then_do (wr er i_trap (1 - r)) (\<lambda>er'.
             Inr (fe', ff', fr', er'))))))))
           [0..n_traps m - 1] (z, z, z, z))
        (\<lambda>(fe, ff, fr, er).
           Inr (m \<lparr> fill_probabilities_from_empty := fe,
                    fill_probabilities_from_full := ff,
                    fill_probabilities_from_release := fr,
                    empty_probabilities_from_release := er \<rparr>)))"

subsection \<open>Trapped electrons and the watermark above the cloud\<close>

text \<open>
  The two slices have \<^verbatim>\<open>n_active_watermarks\<close> elements; a negative count is a
  huge \<^verbatim>\<open>size_t\<close>.
\<close>

definition n_trapped_electrons_from_watermarks ::
    "TrapManager \<Rightarrow> real list \<Rightarrow> real list \<Rightarrow> error + real" where
  "n_trapped_electrons_from_watermarks m wmk_volumes wmk_fills =
     (if n_active_watermarks m = 0 then Inr 0
      else if n_active_watermarks m < 0 then Inl OutOfRange
      else foldE (\<lambda>i_trap n_trapped_electrons.
             then_do
               (foldE (\<lambda>k s.
                    then_do (rd wmk_fills (i_first_active_wmk m * n_traps m + i_trap + k * n_traps m)) (\<lambda>f.
                    then_do (rd wmk_volumes (i_first_active_wmk m + k)) (\<lambda>v.
                    Inr (s + f * v))))
                  [0..n_active_watermarks m - 1] 0)
               (\<lambda>s. then_do (rd (traps m) i_trap) (\<lambda>t.
                    Inr (n_trapped_electrons + s * density t))))
             [0..n_traps m - 1] 0)"

text \<open>
  The search loop of \<^verbatim>\<open>watermark_index_above_cloud_from_volumes\<close>, with its early
  \<^verbatim>\<open>return\<close>: \<open>Some i\<close> when the loop returns \<open>i\<close>, \<open>None\<close> when it runs out.
\<close>

fun index_above_loop :: "real list \<Rightarrow> real \<Rightarrow> real \<Rightarrow> int list \<Rightarrow> error + int option" where
  "index_above_loop vols cloud cumulative_volume [] = Inr None"
| "index_above_loop vols cloud cumulative_volume (i_wmk # rest) =
     (case rd vols i_wmk of
        Inl e \<Rightarrow> Inl e
      | Inr v \<Rightarrow>
          if cumulative_volume + v > cloud then Inr (Some i_wmk)
          else index_above_loop vols cloud (cumulative_volume + v) rest)"

text \<open>
  As in the source, the function reads the member \<^verbatim>\<open>watermark_volumes\<close>, not its
  parameter \<^verbatim>\<open>wmk_volumes\<close>, and falls through to
  \<^verbatim>\<open>return n_active_watermarks\<close>.
\<close>

definition watermark_index_above_cloud_from_volumes ::
    "TrapManager \<Rightarrow> real list \<Rightarrow> real \<Rightarrow> error + int" where
  "watermark_index_above_cloud_from_volumes m wmk_volumes cloud_fractional_volume =
     then_do
       (index_above_loop (watermark_volumes m) cloud_fractional_volume 0
          [i_first_active_wmk m .. i_first_active_wmk m + n_active_watermarks m - 1])
       (\<lambda>r. case r of Some i_wmk \<Rightarrow> Inr i_wmk | None \<Rightarrow> Inr (n_active_watermarks m))"

subsection \<open>Release\<close>

definition n_electrons_released :: "TrapManager \<Rightarrow> error + (real \<times> TrapManager)" where
  "n_electrons_released m =
     then_do
       (foldE (\<lambda>i_wmk (n_released, fills).
            then_do
              (foldE (\<lambda>i_trap (n_released_this_trap, fills).
                   then_do (rd fills (i_wmk * n_traps m + i_trap)) (\<lambda>f.
                   then_do (rd (empty_probabilities_from_release m) i_trap) (\<lambda>p.
                   then_do (rd (traps m) i_trap) (\<lambda>t.
                   let frac_released = f * p in
                   then_do (wr fills (i_wmk * n_traps m + i_trap) (f - frac_released)) (\<lambda>fills'.
                   Inr (n_released_this_trap + frac_released * density t, fills'))))))
                 [0..n_traps m - 1] (0, fills))
              (\<lambda>(n_released_this_trap, fills').
                 then_do (rd (watermark_volumes m) i_wmk) (\<lambda>v.
                 Inr (n_released + n_released_this_trap * v, fills'))))
          [i_first_active_wmk m .. i_first_active_wmk m + n_active_watermarks m - 1]
          (0, watermark_fills m))
       (\<lambda>(n_released, fills). Inr (n_released, m \<lparr> watermark_fills := fills \<rparr>))"

subsection \<open>Capture\<close>

text \<open>
  Lines 372--404 of \<^verbatim>\<open>n_electrons_captured\<close>: the number of electrons that the
  watermarks from the first active one up to and including \<^verbatim>\<open>i_wmk_above_cloud\<close>
  can capture.  The loop state is \<^verbatim>\<open>(n_captured, next_cumulative_volume)\<close>.
\<close>

definition count_capturable :: "TrapManager \<Rightarrow> real \<Rightarrow> int \<Rightarrow> error + real" where
  "count_capturable m cloud_fractional_volume i_wmk_above_cloud =
     then_do
       (foldE (\<lambda>i_wmk (n_captured, next_cumulative_volume).
            let cumulative_volume = next_cumulative_volume in
            then_do (rd (watermark_volumes m) i_wmk) (\<lambda>v.
            let next_cumulative_volume = next_cumulative_volume + v in
            then_do
              (foldE (\<lambda>i_trap n_captured_this_wmk.
                   then_do (rd (watermark_fills m) (i_wmk * n_traps m + i_trap)) (\<lambda>f.
                   then_do (rd (traps m) i_trap) (\<lambda>t.
                   Inr (n_captured_this_wmk + (1 - f) * density t))))
                 [0..n_traps m - 1] 0)
              (\<lambda>n_captured_this_wmk.
                 if i_wmk = i_wmk_above_cloud
                 then Inr (n_captured
                             + n_captured_this_wmk * (cloud_fractional_volume - cumulative_volume),
                           next_cumulative_volume)
                 else Inr (n_captured
                             + n_captured_this_wmk * (next_cumulative_volume - cumulative_volume),
                           next_cumulative_volume))))
          [i_first_active_wmk m .. i_wmk_above_cloud] (0, 0))
       (\<lambda>(n_captured, next_cumulative_volume). Inr n_captured)"

text \<open>
  The copy-paste loops that move the watermarks \<^verbatim>\<open>lo .. hi\<close> up by one cell,
  counting down from \<^verbatim>\<open>hi\<close> (lines 434--441, 528--535 and 589--597).
\<close>

definition copy_watermarks_up :: "TrapManager \<Rightarrow> int \<Rightarrow> int \<Rightarrow> error + TrapManager" where
  "copy_watermarks_up m lo hi =
     then_do
       (foldE (\<lambda>i_wmk (vols, fills).
            then_do (rd vols i_wmk) (\<lambda>v.
            then_do (wr vols (i_wmk + 1) v) (\<lambda>vols'.
            then_do
              (foldE (\<lambda>i_trap fills.
                   then_do (rd fills (i_wmk * n_traps m + i_trap)) (\<lambda>f.
                   wr fills ((i_wmk + 1) * n_traps m + i_trap) f))
                 [0..n_traps m - 1] fills)
              (\<lambda>fills'. Inr (vols', fills')))))
          (rev [lo..hi]) (watermark_volumes m, watermark_fills m))
       (\<lambda>(vols, fills). Inr (m \<lparr> watermark_volumes := vols, watermark_fills := fills \<rparr>))"

text \<open>\<^verbatim>\<open>double s = 0.0; for (i = lo; i <= hi; i++) s += watermark_volumes[i];\<close>\<close>

definition sum_volumes :: "TrapManager \<Rightarrow> int \<Rightarrow> int \<Rightarrow> error + real" where
  "sum_volumes m lo hi =
     foldE (\<lambda>i_wmk s. then_do (rd (watermark_volumes m) i_wmk) (\<lambda>v. Inr (s + v))) [lo..hi] 0"

text \<open>
  ``Make room for the new lowest watermark'' (lines 429--451 and 523--545), followed
  by \<^verbatim>\<open>n_active_watermarks++\<close>.
\<close>

definition make_room_below :: "TrapManager \<Rightarrow> error + TrapManager" where
  "make_room_below m =
     then_do
       (if i_first_active_wmk m > 0
        then Inr (m \<lparr> i_first_active_wmk := i_first_active_wmk m - 1 \<rparr>)
        else copy_watermarks_up m (i_first_active_wmk m)
               (i_first_active_wmk m + n_active_watermarks m))
       (\<lambda>m1. Inr (m1 \<lparr> n_active_watermarks := n_active_watermarks m1 + 1 \<rparr>))"

text \<open>\<^verbatim>\<open>watermark_volumes[i] = v\<close> and \<^verbatim>\<open>watermark_volumes[i] -= v\<close> on the manager.\<close>

definition set_volume :: "TrapManager \<Rightarrow> int \<Rightarrow> real \<Rightarrow> error + TrapManager" where
  "set_volume m i v =
     then_do (wr (watermark_volumes m) i v) (\<lambda>vols. Inr (m \<lparr> watermark_volumes := vols \<rparr>))"

definition subtract_volume :: "TrapManager \<Rightarrow> int \<Rightarrow> real \<Rightarrow> error + TrapManager" where
  "subtract_volume m i v =
     then_do (rd (watermark_volumes m) i) (\<lambda>old. set_volume m i (old - v))"

text \<open>
  \<^verbatim>\<open>watermark_fills[std::slice(start, len, 1)] = f(watermark_fills[std::slice(start, len, 1)])\<close>
  on the manager; \<open>f\<close> is \<open>\<lambda>_. 1.0\<close>, \<open>\<lambda>_. enough\<close> or the blend
  \<open>\<lambda>x. x * (1.0 - enough) + enough\<close>.
\<close>

definition update_fills :: "TrapManager \<Rightarrow> (real \<Rightarrow> real) \<Rightarrow> int \<Rightarrow> int \<Rightarrow> error + TrapManager" where
  "update_fills m f start len =
     then_do (map_slice f (watermark_fills m) start len)
       (\<lambda>fills. Inr (m \<lparr> watermark_fills := fills \<rparr>))"

text \<open>The branch ``Normal full capture'' (lines 413--497).\<close>

definition capture_full :: "TrapManager \<Rightarrow> real \<Rightarrow> int \<Rightarrow> error + TrapManager" where
  "capture_full m cloud_fractional_volume i_wmk_above_cloud =
     (if n_active_watermarks m = 0 then
        then_do (set_volume m 0 cloud_fractional_volume) (\<lambda>m1.
        then_do (update_fills m1 (\<lambda>_. 1) 0 (n_traps m1)) (\<lambda>m2.
        Inr (m2 \<lparr> n_active_watermarks := n_active_watermarks m2 + 1 \<rparr>)))
      else if i_wmk_above_cloud = i_first_active_wmk m then
        then_do (make_room_below m) (\<lambda>m1.
        then_do (set_volume m1 (i_first_active_wmk m1) cloud_fractional_volume) (\<lambda>m2.
        then_do (update_fills m2 (\<lambda>_. 1) (i_first_active_wmk m2 * n_traps m2) (n_traps m2)) (\<lambda>m3.
        subtract_volume m3 (i_first_active_wmk m3 + 1) cloud_fractional_volume)))
      else if i_wmk_above_cloud = i_first_active_wmk m + n_active_watermarks m then
        (let m1 = m \<lparr> i_first_active_wmk := i_wmk_above_cloud - 1 \<rparr> in
         then_do (set_volume m1 (i_first_active_wmk m1) cloud_fractional_volume) (\<lambda>m2.
         then_do (update_fills m2 (\<lambda>_. 1) (i_first_active_wmk m2 * n_traps m2) (n_traps m2)) (\<lambda>m3.
         Inr (m3 \<lparr> n_active_watermarks := 1 \<rparr>))))
      else
        then_do (sum_volumes m (i_first_active_wmk m) i_wmk_above_cloud) (\<lambda>previous_total_volume.
        then_do (set_volume m i_wmk_above_cloud
                   (previous_total_volume - cloud_fractional_volume)) (\<lambda>m1.
        let m2 = m1 \<lparr> n_active_watermarks :=
                        n_active_watermarks m1 + (i_first_active_wmk m1 - i_wmk_above_cloud + 1) \<rparr>;
            m3 = m2 \<lparr> i_first_active_wmk := i_wmk_above_cloud - 1 \<rparr> in
        then_do (set_volume m3 (i_first_active_wmk m3) cloud_fractional_volume) (\<lambda>m4.
        update_fills m4 (\<lambda>_. 1) (i_first_active_wmk m4 * n_traps m4) (n_traps m4)))))"

text \<open>The branch ``Partial capture'' (lines 499--626), after \<^verbatim>\<open>n_captured *= enough\<close>.\<close>

definition capture_partial :: "TrapManager \<Rightarrow> real \<Rightarrow> int \<Rightarrow> real \<Rightarrow> error + TrapManager" where
  "capture_partial m cloud_fractional_volume i_wmk_above_cloud enough =
     (if n_active_watermarks m = 0 then
        then_do (set_volume m 0 cloud_fractional_volume) (\<lambda>m1.
        then_do (update_fills m1 (\<lambda>_. enough) 0 (n_traps m1)) (\<lambda>m2.
        Inr (m2 \<lparr> n_active_watermarks := n_active_watermarks m2 + 1 \<rparr>)))
      else if i_wmk_above_cloud = i_first_active_wmk m then
        then_do (make_room_below m) (\<lambda>m1.
        then_do (set_volume m1 (i_first_active_wmk m1) cloud_fractional_volume) (\<lambda>m2.
        then_do (update_fills m2 (\<lambda>x. x * (1 - enough) + enough)
                   (i_first_active_wmk m2 * n_traps m2) (n_traps m2)) (\<lambda>m3.
        subtract_volume m3 (i_first_active_wmk m3 + 1) cloud_fractional_volume)))
      else if i_wmk_above_cloud = i_first_active_wmk m + n_active_watermarks m then
        then_do (sum_volumes m (i_first_active_wmk m) (i_wmk_above_cloud - 1)) (\<lambda>volume_below.
        then_do (set_volume m i_wmk_above_cloud (cloud_fractional_volume - volume_below)) (\<lambda>m1.
        let m2 = m1 \<lparr> n_active_watermarks := n_active_watermarks m1 + 1 \<rparr> in
        update_fills m2 (\<lambda>x. x * (1 - enough) + enough)
          (i_first_active_wmk m2 * n_traps m2) (n_active_watermarks m2 * n_traps m2)))
      else
        then_do (copy_watermarks_up m i_wmk_above_cloud
                   (i_wmk_above_cloud - 1 + n_active_watermarks m - i_first_active_wmk m)) (\<lambda>m1.
        then_do (sum_volumes m1 (i_first_active_wmk m1) (i_wmk_above_cloud - 1)) (\<lambda>volume_below.
        then_do (set_volume m1 i_wmk_above_cloud (cloud_fractional_volume - volume_below)) (\<lambda>m2.
        then_do (rd (watermark_volumes m2) i_wmk_above_cloud) (\<lambda>v.
        then_do (subtract_volume m2 (i_wmk_above_cloud + 1) v) (\<lambda>m3.
        let m4 = m3 \<lparr> n_active_watermarks := n_active_watermarks m3 + 1 \<rparr> in
        update_fills m4 (\<lambda>x. x * (1 - enough) + enough)
          (i_first_active_wmk m4 * n_traps m4)
          ((i_wmk_above_cloud + 1 - i_first_active_wmk m4) * n_traps m4)))))))"

text \<open>
  \<^verbatim>\<open>double enough = n_free_electrons / n_captured;\<close> (line 410), with the index
  and the divisor it is computed from.
\<close>

definition capture_quotient :: "TrapManager \<Rightarrow> real \<Rightarrow> real \<Rightarrow> error + (int \<times> real \<times> quotient)" where
  "capture_quotient m cloud_fractional_volume n_free_electrons =
     then_do (watermark_index_above_cloud_from_volumes m (watermark_volumes m)
                cloud_fractional_volume) (\<lambda>i_wmk_above_cloud.
     then_do (count_capturable m cloud_fractional_volume i_wmk_above_cloud) (\<lambda>n_captured.
     Inr (i_wmk_above_cloud, n_captured, divide_double n_free_electrons n_captured)))"

text \<open>
  \<^verbatim>\<open>enough >= 1.0\<close> holds for $+\infty$ and fails for $-\infty$ and NaN.  In the
  partial branch a quotient that is not finite is multiplied into \<^verbatim>\<open>n_captured\<close>
  and blended into the fills, which then are no real numbers: \<open>NonFinite\<close>.
\<close>

definition n_electrons_captured :: "TrapManager \<Rightarrow> real \<Rightarrow> error + (real \<times> TrapManager)" where
  "n_electrons_captured m n_free_electrons =
     (let cloud_fractional_volume = cloud_fractional_volume_from_electrons (ccd m) n_free_electrons in
      if cloud_fractional_volume = 0 then Inr (0, m)
      else
        then_do (capture_quotient m cloud_fractional_volume n_free_electrons)
          (\<lambda>(i_wmk_above_cloud, n_captured, enough).
             case enough of
               PlusInfinity \<Rightarrow>
                 then_do (capture_full m cloud_fractional_volume i_wmk_above_cloud)
                   (\<lambda>m'. Inr (n_captured, m'))
             | Finite e \<Rightarrow>
                 if e \<ge> 1 then
                   then_do (capture_full m cloud_fractional_volume i_wmk_above_cloud)
                     (\<lambda>m'. Inr (n_captured, m'))
                 else
                   then_do (capture_partial m cloud_fractional_volume i_wmk_above_cloud e)
                     (\<lambda>m'. Inr (n_captured * e, m'))
             | MinusInfinity \<Rightarrow> Inl NonFinite
             | NaN \<Rightarrow> Inl NonFinite))"

definition n_electrons_released_and_captured ::
    "TrapManager \<Rightarrow> real \<Rightarrow> error + (real \<times> TrapManager)" where
  "n_electrons_released_and_captured m n_free_electrons =
     then_do (n_electrons_released m) (\<lambda>(n_released, m1).
     then_do (n_electrons_captured m1 (n_free_electrons + n_released)) (\<lambda>(n_captured, m2).
     Inr (n_released - n_captured, m2)))"

section \<open>Columns of pixels\<close>

text \<open>
  The clocker hands the pixels of a column to the manager one after the other; each
  call returns the change of the pixel's charge.  The first undefined access ends
  the run.
\<close>

fun release_and_capture_all :: "TrapManager \<Rightarrow> real list \<Rightarrow> error + (real list \<times> TrapManager)" where
  "release_and_capture_all m [] = Inr ([], m)"
| "release_and_capture_all m (n_free_electrons # rest) =
     (case n_electrons_released_and_captured m n_free_electrons of
        Inl e \<Rightarrow> Inl e
      | Inr (d, m') \<Rightarrow>
          (case release_and_capture_all m' rest of
             Inl e \<Rightarrow> Inl e
           | Inr (ds, m'') \<Rightarrow> Inr (d # ds, m'')))"

section \<open>Operations and observations\<close>

text \<open>The public operations of a manager, to speak about sequences of them.\<close>

datatype operation =
    Initialise | Reset | Store | Restore | SetFillProbabilities real | ReleaseAndCapture real

fun apply_operation :: "operation \<Rightarrow> TrapManager \<Rightarrow> error + TrapManager" where
  "apply_operation Initialise m = Inr (initialise_trap_states m)"
| "apply_operation Reset m = Inr (reset_trap_states m)"
| "apply_operation Store m = Inr (store_trap_states m)"
| "apply_operation Restore m = Inr (restore_trap_states m)"
| "apply_operation (SetFillProbabilities dwell_time) m =
     set_fill_probabilities_from_dwell_time m dwell_time"
| "apply_operation (ReleaseAndCapture n_free_electrons) m =
     then_do (n_electrons_released_and_captured m n_free_electrons) (\<lambda>(d, m'). Inr m')"

fun apply_operations :: "operation list \<Rightarrow> TrapManager \<Rightarrow> error + TrapManager" where
  "apply_operations [] m = Inr m"
| "apply_operations (op # ops) m =
     (case apply_operation op m of Inl e \<Rightarrow> Inl e | Inr m' \<Rightarrow> apply_operations ops m')"

text \<open>The complete watermark state: both buffers and both indices.\<close>

definition watermark_state :: "TrapManager \<Rightarrow> real list \<times> real list \<times> int \<times> int" where
  "watermark_state m =
     (watermark_volumes m, watermark_fills m, n_active_watermarks m, i_first_active_wmk m)"

text \<open>The manager without its watermark state, and the members that fix its capacity.\<close>

definition configuration :: "TrapManager \<Rightarrow> TrapManager" where
  "configuration m = m \<lparr> n_active_watermarks := 0, i_first_active_wmk := 0,
                         watermark_volumes := [], watermark_fills := [] \<rparr>"

definition capacity :: "TrapManager \<Rightarrow> Trap list \<times> int \<times> CCD \<times> int \<times> int \<times> real \<times> int" where
  "capacity m = (traps m, max_n_transfers m, ccd m, n_traps m, n_watermarks_per_transfer m,
                 empty_watermark m, n_watermarks m)"

text \<open>
  An array of one entry per species in which the first \<open>k\<close> entries are computed by
  \<open>g\<close> and the others are still 0.
\<close>

definition filled_upto :: "(Trap \<Rightarrow> real) \<Rightarrow> Trap list \<Rightarrow> nat \<Rightarrow> real list" where
  "filled_upto g ts k = map (\<lambda>i. if i < k then g (ts ! i) else 0) [0..<length ts]"

text \<open>
  The cells of the two buffers from watermark \<open>e\<close> on hold the value \<open>ew\<close>; the fills of
  watermark \<open>i\<close> are the cells \<open>i * n .. i * n + n - 1\<close>.
\<close>

definition cells_empty_from :: "int \<Rightarrow> int \<Rightarrow> real \<Rightarrow> real list \<Rightarrow> real list \<Rightarrow> bool" where
  "cells_empty_from e n ew vols fills \<longleftrightarrow>
     (\<forall>i \<in> {0..<length vols}. e \<le> int i \<longrightarrow> vols ! i = ew) \<and>
     (\<forall>k \<in> {0..<length fills}. e * n \<le> int k \<longrightarrow> fills ! k = ew)"

text \<open>The same for the buffers of a manager and its own \<^verbatim>\<open>empty_watermark\<close>.\<close>

definition empty_from :: "int \<Rightarrow> TrapManager \<Rightarrow> bool" where
  "empty_from e m \<longleftrightarrow>
     cells_empty_from e (n_traps m) (empty_watermark m) (watermark_volumes m) (watermark_fills m)"

text \<open>The members that say where the active window is and what an empty cell holds.\<close>

definition window :: "TrapManager \<Rightarrow> int \<times> int \<times> int \<times> real" where
  "window m = (i_first_active_wmk m, n_active_watermarks m, n_traps m, empty_watermark m)"




section \<open>Three concrete columns\<close>

text \<open>
  The CCD of \<^verbatim>\<open>run_demo\<close> in \<^verbatim>\<open>main.cpp\<close>: \<^verbatim>\<open>CCD(CCDPhase(1e3, 0.0, 1.0))\<close>.
\<close>

definition demo_ccd :: CCD where
  "demo_ccd = \<lparr> full_well_depth = 1000, well_notch_depth = 0, well_fill_power = 1 \<rparr>"

subsection \<open>Column A: density 500, half of the trapped electrons released per transfer\<close>

definition trapA :: Trap where
  "trapA = \<lparr> density = 500, capture_rate = 0, emission_rate = 1 \<rparr>"

definition mA_new :: TrapManager where
  "mA_new = initialise_trap_states (TrapManagerInstantCapture_new [trapA] 4 demo_ccd)"

text \<open>\<open>mA_new\<close> after \<^verbatim>\<open>set_fill_probabilities_from_dwell_time(log(2))\<close>.\<close>

definition mA0 :: TrapManager where
  "mA0 = mA_new \<lparr> fill_probabilities_from_empty := [1],
                     fill_probabilities_from_full := [1 / 2],
                     fill_probabilities_from_release := [1 / 2],
                     empty_probabilities_from_release := [1 / 2] \<rparr>"

text \<open>The states after the pixels 400, 100, 800, 800 (\<open>sA3r\<close>: after the release of the fourth call).\<close>

definition sA1 :: TrapManager where
  "sA1 = mA0 \<lparr> n_active_watermarks := 1, i_first_active_wmk := 0,
     watermark_volumes := [2 / 5, 0, 0, 0, 0],
     watermark_fills := [1, 0, 0, 0, 0] \<rparr>"

definition sA2 :: TrapManager where
  "sA2 = mA0 \<lparr> n_active_watermarks := 2, i_first_active_wmk := 0,
     watermark_volumes := [1 / 5, 1 / 5, 0, 0, 0],
     watermark_fills := [1, 1 / 2, 0, 0, 0] \<rparr>"

definition sA3 :: TrapManager where
  "sA3 = mA0 \<lparr> n_active_watermarks := 1, i_first_active_wmk := 1,
     watermark_volumes := [1 / 5, 7 / 8, 0, 0, 0],
     watermark_fills := [1 / 2, 1, 0, 0, 0] \<rparr>"

definition sA3r :: TrapManager where
  "sA3r = mA0 \<lparr> n_active_watermarks := 1, i_first_active_wmk := 1,
     watermark_volumes := [1 / 5, 7 / 8, 0, 0, 0],
     watermark_fills := [1 / 2, 1 / 2, 0, 0, 0] \<rparr>"

definition sA4 :: TrapManager where
  "sA4 = mA0 \<lparr> n_active_watermarks := 2, i_first_active_wmk := 0,
     watermark_volumes := [1, - (1 / 8), 0, 0, 0],
     watermark_fills := [1, 1 / 2, 0, 0, 0] \<rparr>"

subsection \<open>Column B: density 2000, a fifth of the trapped electrons released per transfer\<close>

definition trapB :: Trap where
  "trapB = \<lparr> density = 2000, capture_rate = 0, emission_rate = 1 \<rparr>"

definition mB_new :: TrapManager where
  "mB_new = initialise_trap_states (TrapManagerInstantCapture_new [trapB] 6 demo_ccd)"

text \<open>\<open>mB_new\<close> after \<^verbatim>\<open>set_fill_probabilities_from_dwell_time(log(5.0 / 4.0))\<close>.\<close>

definition mB0 :: TrapManager where
  "mB0 = mB_new \<lparr> fill_probabilities_from_empty := [1],
                     fill_probabilities_from_full := [4 / 5],
                     fill_probabilities_from_release := [4 / 5],
                     empty_probabilities_from_release := [1 / 5] \<rparr>"

text \<open>The states after the pixels 700, 900, 100, 700, 700, 800 (\<open>sB4r\<close>: after the release of the fifth call).\<close>

definition sB1 :: TrapManager where
  "sB1 = mB0 \<lparr> n_active_watermarks := 1, i_first_active_wmk := 0,
     watermark_volumes := [7 / 10, 0, 0, 0, 0, 0, 0],
     watermark_fills := [1 / 2, 0, 0, 0, 0, 0, 0] \<rparr>"

definition sB2 :: TrapManager where
  "sB2 = mB0 \<lparr> n_active_watermarks := 2, i_first_active_wmk := 0,
     watermark_volumes := [7 / 10, 3 / 10, 0, 0, 0, 0, 0],
     watermark_fills := [5 / 6, 13 / 18, 0, 0, 0, 0, 0] \<rparr>"

definition sB3 :: TrapManager where
  "sB3 = mB0 \<lparr> n_active_watermarks := 3, i_first_active_wmk := 0,
     watermark_volumes := [21 / 50, 7 / 25, 3 / 10, 0, 0, 0, 0],
     watermark_fills := [1, 2 / 3, 26 / 45, 0, 0, 0, 0] \<rparr>"

definition sB4 :: TrapManager where
  "sB4 = mB0 \<lparr> n_active_watermarks := 1, i_first_active_wmk := 2,
     watermark_volumes := [21 / 50, 7 / 25, 1, 0, 0, 0, 0],
     watermark_fills := [4 / 5, 8 / 15, 1, 0, 0, 0, 0] \<rparr>"

definition sB4r :: TrapManager where
  "sB4r = mB0 \<lparr> n_active_watermarks := 1, i_first_active_wmk := 2,
     watermark_volumes := [21 / 50, 7 / 25, 1, 0, 0, 0, 0],
     watermark_fills := [4 / 5, 8 / 15, 4 / 5, 0, 0, 0, 0] \<rparr>"

definition sB5 :: TrapManager where
  "sB5 = mB0 \<lparr> n_active_watermarks := 3, i_first_active_wmk := 0,
     watermark_volumes := [1, - 1, 1, 0, 0, 0, 0],
     watermark_fills := [1, 8 / 15, 4 / 5, 0, 0, 0, 0] \<rparr>"

definition sB6 :: TrapManager where
  "sB6 = mB0 \<lparr> n_active_watermarks := 4, i_first_active_wmk := 0,
     watermark_volumes := [1, - 1, 1, 0, 0, 0, 0],
     watermark_fills := [- 9, - (83 / 3), - 17, - 49, 0, 0, 0] \<rparr>"

subsection \<open>Column C: density 2000, half of the trapped electrons released per transfer\<close>

definition trapC :: Trap where
  "trapC = \<lparr> density = 2000, capture_rate = 0, emission_rate = 1 \<rparr>"

definition mC_new :: TrapManager where
  "mC_new = initialise_trap_states (TrapManagerInstantCapture_new [trapC] 4 demo_ccd)"

text \<open>\<open>mC_new\<close> after \<^verbatim>\<open>set_fill_probabilities_from_dwell_time(log(2))\<close>.\<close>

definition mC0 :: TrapManager where
  "mC0 = mC_new \<lparr> fill_probabilities_from_empty := [1],
                     fill_probabilities_from_full := [1 / 2],
                     fill_probabilities_from_release := [1 / 2],
                     empty_probabilities_from_release := [1 / 2] \<rparr>"

text \<open>The states after the pixels 800, 200, 0 (\<open>sC3r\<close>: after the release of the fourth call).\<close>

definition sC1 :: TrapManager where
  "sC1 = mC0 \<lparr> n_active_watermarks := 1, i_first_active_wmk := 0,
     watermark_volumes := [4 / 5, 0, 0, 0, 0],
     watermark_fills := [1 / 2, 0, 0, 0, 0] \<rparr>"

definition sC2 :: TrapManager where
  "sC2 = mC0 \<lparr> n_active_watermarks := 2, i_first_active_wmk := 0,
     watermark_volumes := [3 / 5, 1 / 5, 0, 0, 0],
     watermark_fills := [3 / 4, 1 / 4, 0, 0, 0] \<rparr>"

definition sC3 :: TrapManager where
  "sC3 = mC0 \<lparr> n_active_watermarks := 3, i_first_active_wmk := 0,
     watermark_volumes := [1 / 2, 1 / 10, 1 / 5, 0, 0],
     watermark_fills := [7 / 8, 3 / 8, 1 / 8, 0, 0] \<rparr>"

definition sC3r :: TrapManager where
  "sC3r = mC0 \<lparr> n_active_watermarks := 3, i_first_active_wmk := 0,
     watermark_volumes := [1 / 2, 1 / 10, 1 / 5, 0, 0],
     watermark_fills := [7 / 16, 3 / 16, 1 / 16, 0, 0] \<rparr>"

subsection \<open>A species of density 0\<close>

definition trapZ :: Trap where
  "trapZ = \<lparr> density = 0, capture_rate = 0, emission_rate = 1 \<rparr>"

definition mZ0 :: TrapManager where
  "mZ0 = (initialise_trap_states (TrapManagerInstantCapture_new [trapZ] 4 demo_ccd))
           \<lparr> fill_probabilities_from_empty := [1],
             fill_probabilities_from_full := [1 / 2],
             fill_probabilities_from_release := [1 / 2],
             empty_probabilities_from_release := [1 / 2] \<rparr>"

subsection \<open>Snapshots\<close>

text \<open>
  The fresh manager of column A after the pixel 400 and \<^verbatim>\<open>store_trap_states()\<close>, and
  \<open>sA1\<close> after \<^verbatim>\<open>store_trap_states()\<close> and the pixel 100.
\<close>

definition tA1 :: TrapManager where
  "tA1 = mA_new \<lparr> n_active_watermarks := 1,
     watermark_volumes := [2 / 5, 0, 0, 0, 0],
     watermark_fills := [1, 0, 0, 0, 0],
     stored_n_active_watermarks := 1,
     stored_watermark_volumes := [2 / 5, 0, 0, 0, 0],
     stored_watermark_fills := [1, 0, 0, 0, 0] \<rparr>"

text \<open>A freshly initialised manager of the base class, with the species of column A.\<close>

definition mBase_new :: TrapManager where
  "mBase_new = initialise_trap_states (TrapManager_new [trapA] 4 demo_ccd)"

definition tA2 :: TrapManager where
  "tA2 = sA2 \<lparr> stored_n_active_watermarks := 1,
     stored_watermark_volumes := [2 / 5, 0, 0, 0, 0],
     stored_watermark_fills := [1, 0, 0, 0, 0] \<rparr>"

section \<open>Evaluating the model\<close>

text \<open>
  Between the notch and the full well, with \<^verbatim>\<open>well_fill_power = 1\<close>, the power is the
  identity; this equation lets the kernel evaluate the three columns.
\<close>

lemma cloud_fractional_volume_from_electrons_code [code]:
  "cloud_fractional_volume_from_electrons c n =
     (if n \<le> well_notch_depth c then 0
      else if full_well_depth c \<le> n then 1
      else if well_fill_power c = 1
      then max 0 (min 1 ((n - well_notch_depth c) / (full_well_depth c - well_notch_depth c)))
      else max 0 (min 1 (((n - well_notch_depth c) / (full_well_depth c - well_notch_depth c))
                powr well_fill_power c)))"
  by (simp add: cloud_fractional_volume_from_electrons_def)

lemmas column_defs = demo_ccd_def trapA_def mA_new_def mA0_def sA1_def sA2_def sA3_def sA3r_def
  sA4_def trapB_def mB_new_def mB0_def sB1_def sB2_def sB3_def sB4_def sB4r_def sB5_def sB6_def
  trapC_def mC_new_def mC0_def sC1_def sC2_def sC3_def sC3r_def trapZ_def mZ0_def tA1_def tA2_def mBase_new_def

lemma stepA1: "n_electrons_released_and_captured mA0 400 = Inr (- 200, sA1)"
  unfolding column_defs by code_simp

lemma stepA2: "n_electrons_released_and_captured sA1 100 = Inr (50, sA2)"
  unfolding column_defs by code_simp

lemma stepA3: "n_electrons_released_and_captured sA2 800 = Inr (- (575 / 2), sA3)"
  unfolding column_defs by code_simp

lemma stepA4: "n_electrons_released_and_captured sA3 800 = Inr (- (125 / 4), sA4)"
  unfolding column_defs by code_simp

lemma stepB1: "n_electrons_released_and_captured mB0 700 = Inr (- 700, sB1)"
  unfolding column_defs by code_simp

lemma stepB2: "n_electrons_released_and_captured sB1 900 = Inr (- 900, sB2)"
  unfolding column_defs by code_simp

lemma stepB3: "n_electrons_released_and_captured sB2 100 = Inr (40, sB3)"
  unfolding column_defs by code_simp

lemma stepB4: "n_electrons_released_and_captured sB3 700 = Inr (- 440, sB4)"
  unfolding column_defs by code_simp

lemma stepB5: "n_electrons_released_and_captured sB4 700 = Inr (400, sB5)"
  unfolding column_defs by code_simp

lemma stepB6: "n_electrons_released_and_captured sB5 800 = Inr (- 800, sB6)"
  unfolding column_defs by code_simp

lemma stepC1: "n_electrons_released_and_captured mC0 800 = Inr (- 800, sC1)"
  unfolding column_defs by code_simp

lemma stepC2: "n_electrons_released_and_captured sC1 200 = Inr (- 200, sC2)"
  unfolding column_defs by code_simp

lemma stepC3: "n_electrons_released_and_captured sC2 0 = Inr (0, sC3)"
  unfolding column_defs by code_simp

lemma stepC4: "n_electrons_released_and_captured sC3 200 = Inl OutOfRange"
  unfolding column_defs by code_simp

lemma columnA_3: "release_and_capture_all mA0 [400, 100, 800] = Inr ([- 200, 50, - (575 / 2)], sA3)"
  by (simp add: stepA1 stepA2 stepA3)

lemma columnA_4:
  "release_and_capture_all mA0 [400, 100, 800, 800] = Inr ([- 200, 50, - (575 / 2), - (125 / 4)], sA4)"
  by (simp add: stepA1 stepA2 stepA3 stepA4)

lemma columnB_4: "release_and_capture_all mB0 [700, 900, 100, 700] = Inr ([- 700, - 900, 40, - 440], sB4)"
  by (simp add: stepB1 stepB2 stepB3 stepB4)

lemma columnB_6:
  "release_and_capture_all mB0 [700, 900, 100, 700, 700, 800]
     = Inr ([- 700, - 900, 40, - 440, 400, - 800], sB6)"
  by (simp add: stepB1 stepB2 stepB3 stepB4 stepB5 stepB6)

lemma columnC_3: "release_and_capture_all mC0 [800, 200, 0] = Inr ([- 800, - 200, 0], sC3)"
  by (simp add: stepC1 stepC2 stepC3)

lemma columnC_4: "release_and_capture_all mC0 [800, 200, 0, 200] = Inl OutOfRange"
  by (simp add: stepC1 stepC2 stepC3 stepC4)

section \<open>Basic facts\<close>

lemma then_do_Inl [simp]: "then_do (Inl e) f = Inl e"
  by (simp add: then_do_def)

lemma then_do_Inr [simp]: "then_do (Inr v) f = f v"
  by (simp add: then_do_def)

lemma then_do_eq_Inr: "then_do r f = Inr y \<longleftrightarrow> (\<exists>x. r = Inr x \<and> f x = Inr y)"
  by (cases r) simp_all

lemma foldE_append: "foldE f (xs @ ys) s = then_do (foldE f xs s) (foldE f ys)"
  by (induction xs arbitrary: s) (auto split: sum.splits)

lemma rd_in_range: "k < length xs \<Longrightarrow> rd xs (int k) = Inr (xs ! k)"
  by (simp add: rd_def)

lemma wr_in_range: "k < length xs \<Longrightarrow> wr xs (int k) v = Inr (xs[k := v])"
  by (simp add: wr_def)

lemma upto_snoc_nat: "[0..int (Suc k) - 1] = [0..int k - 1] @ [int k]"
proof -
  have e: "int (Suc k) - 1 = int k"
    by simp
  show ?thesis
    unfolding e by (rule upto_rec2) simp
qed

lemma filled_upto_0: "filled_upto g ts 0 = replicate (length ts) 0"
  by (simp add: filled_upto_def map_replicate_const)

lemma filled_upto_Suc: "k < length ts \<Longrightarrow> (filled_upto g ts k)[k := g (ts ! k)] = filled_upto g ts (Suc k)"
  by (rule nth_equalityI) (auto simp: filled_upto_def nth_list_update less_Suc_eq)

lemma length_filled_upto [simp]: "length (filled_upto g ts k) = length ts"
  by (simp add: filled_upto_def)

lemma filled_upto_nth: "i < length ts \<Longrightarrow> filled_upto g ts (length ts) ! i = g (ts ! i)"
  by (simp add: filled_upto_def)

lemma four_arrays_loop:
  fixes a b c :: "Trap \<Rightarrow> real" and bad :: "Trap \<Rightarrow> bool"
  assumes ok: "\<forall>t \<in> set ts. \<not> bad t" and k: "k \<le> length ts"
  shows "foldE (\<lambda>i_trap (fe, ff, fr, er).
             then_do (rd ts i_trap) (\<lambda>t.
             if bad t then Inl NonFinite else
             then_do (wr fe i_trap (a t)) (\<lambda>fe'.
             then_do (wr ff i_trap (b t)) (\<lambda>ff'.
             then_do (wr fr i_trap (c t)) (\<lambda>fr'.
             then_do (rd fr' i_trap) (\<lambda>r.
             then_do (wr er i_trap (1 - r)) (\<lambda>er'.
             Inr (fe', ff', fr', er'))))))))
           [0..int k - 1]
           (replicate (length ts) 0, replicate (length ts) 0, replicate (length ts) 0, replicate (length ts) 0)
         = Inr (filled_upto a ts k, filled_upto b ts k, filled_upto c ts k,
                filled_upto (\<lambda>t. 1 - c t) ts k)"
  using k
proof (induction k)
  case 0
  show ?case by (simp add: filled_upto_0)
next
  case (Suc k)
  then have k: "k < length ts" by simp
  then have okk: "\<not> bad (ts ! k)" using ok by simp
  have rdk: "rd (filled_upto c ts (Suc k)) (int k) = Inr (c (ts ! k))"
    using k by (simp add: rd_def filled_upto_def)
  have step: "filled_upto (\<lambda>t. 1 - c t) ts (Suc k) = (filled_upto (\<lambda>t. 1 - c t) ts k)[k := 1 - c (ts ! k)]"
    using filled_upto_Suc [OF k, of "\<lambda>t. 1 - c t"] by simp
  show ?case
    unfolding upto_snoc_nat foldE_append
    using Suc.IH k okk
    by (simp add: rd_in_range wr_in_range filled_upto_Suc rdk step del: of_nat_Suc)
qed

lemma configuration_updates [simp]:
  "configuration (m \<lparr> n_active_watermarks := a \<rparr>) = configuration m"
  "configuration (m \<lparr> i_first_active_wmk := b \<rparr>) = configuration m"
  "configuration (m \<lparr> watermark_volumes := v \<rparr>) = configuration m"
  "configuration (m \<lparr> watermark_fills := w \<rparr>) = configuration m"
  by (simp_all add: configuration_def)

lemma configuration_fields:
  "stored_watermark_volumes m = stored_watermark_volumes (configuration m)"
  "stored_watermark_fills m = stored_watermark_fills (configuration m)"
  "stored_n_active_watermarks m = stored_n_active_watermarks (configuration m)"
  "stored_i_first_active_wmk m = stored_i_first_active_wmk (configuration m)"
  "n_traps m = n_traps (configuration m)"
  "traps m = traps (configuration m)"
  "ccd m = ccd (configuration m)"
  "n_watermarks m = n_watermarks (configuration m)"
  "empty_watermark m = empty_watermark (configuration m)"
  "empty_probabilities_from_release m = empty_probabilities_from_release (configuration m)"
  by (simp_all add: configuration_def)

lemma set_volume_configuration:
  "set_volume m i v = Inr m' \<Longrightarrow> configuration m' = configuration m"
  by (auto simp: set_volume_def then_do_eq_Inr)

lemma subtract_volume_configuration:
  "subtract_volume m i v = Inr m' \<Longrightarrow> configuration m' = configuration m"
  by (auto simp: subtract_volume_def then_do_eq_Inr dest: set_volume_configuration)

lemma update_fills_configuration:
  "update_fills m f start len = Inr m' \<Longrightarrow> configuration m' = configuration m"
  by (auto simp: update_fills_def then_do_eq_Inr)

lemma copy_watermarks_up_configuration:
  "copy_watermarks_up m lo hi = Inr m' \<Longrightarrow> configuration m' = configuration m"
  by (auto simp: copy_watermarks_up_def then_do_eq_Inr)

lemma make_room_below_configuration:
  "make_room_below m = Inr m' \<Longrightarrow> configuration m' = configuration m"
  by (auto simp: make_room_below_def then_do_eq_Inr split: if_splits
           dest: copy_watermarks_up_configuration)

lemma capture_full_configuration:
  "capture_full m v i = Inr m' \<Longrightarrow> configuration m' = configuration m"
  by (auto simp: capture_full_def then_do_eq_Inr Let_def split: if_splits
           dest!: set_volume_configuration subtract_volume_configuration
                  update_fills_configuration make_room_below_configuration)

lemma capture_partial_configuration:
  "capture_partial m v i e = Inr m' \<Longrightarrow> configuration m' = configuration m"
  by (auto simp: capture_partial_def then_do_eq_Inr Let_def split: if_splits
           dest!: set_volume_configuration subtract_volume_configuration
                  update_fills_configuration make_room_below_configuration
                  copy_watermarks_up_configuration)

lemma n_electrons_released_configuration:
  "n_electrons_released m = Inr (r, m') \<Longrightarrow> configuration m' = configuration m"
  by (auto simp: n_electrons_released_def then_do_eq_Inr)

lemma n_electrons_captured_configuration:
  assumes "n_electrons_captured m n = Inr (c, m')"
  shows "configuration m' = configuration m"
proof (cases "cloud_fractional_volume_from_electrons (ccd m) n = 0")
  case True
  then show ?thesis
    using assms by (simp add: n_electrons_captured_def)
next
  case False
  with assms obtain i_above n_captured enough where
    r: "(case enough of
           Finite e \<Rightarrow>
             if e \<ge> 1 then
               then_do (capture_full m (cloud_fractional_volume_from_electrons (ccd m) n) i_above)
                 (\<lambda>m'. Inr (n_captured, m'))
             else
               then_do (capture_partial m (cloud_fractional_volume_from_electrons (ccd m) n) i_above e)
                 (\<lambda>m'. Inr (n_captured * e, m'))
         | PlusInfinity \<Rightarrow>
             then_do (capture_full m (cloud_fractional_volume_from_electrons (ccd m) n) i_above)
               (\<lambda>m'. Inr (n_captured, m'))
         | MinusInfinity \<Rightarrow> Inl NonFinite
         | NaN \<Rightarrow> Inl NonFinite) = Inr (c, m')"
    by (auto simp: n_electrons_captured_def then_do_eq_Inr Let_def)
  then show ?thesis
    by (cases enough)
       (auto simp: then_do_eq_Inr split: if_splits
             dest!: capture_full_configuration capture_partial_configuration)
qed

lemma n_electrons_released_and_captured_configuration:
  "n_electrons_released_and_captured m n = Inr (d, m') \<Longrightarrow> configuration m' = configuration m"
  by (auto simp: n_electrons_released_and_captured_def then_do_eq_Inr
           dest!: n_electrons_released_configuration n_electrons_captured_configuration)

lemma reset_trap_states_configuration: "configuration (reset_trap_states m) = configuration m"
  by (simp add: reset_trap_states_def)

lemma restore_trap_states_configuration: "configuration (restore_trap_states m) = configuration m"
  by (simp add: restore_trap_states_def)

lemma capacity_configuration: "capacity (configuration m) = capacity m"
  by (simp add: capacity_def configuration_def)

lemma configuration_capacity:
  "configuration m' = configuration m \<Longrightarrow> capacity m' = capacity m"
  by (metis capacity_configuration)

lemma set_fill_probabilities_capacity:
  "set_fill_probabilities_from_dwell_time m dwell_time = Inr m' \<Longrightarrow> capacity m' = capacity m"
  by (auto simp: set_fill_probabilities_from_dwell_time_def then_do_eq_Inr Let_def capacity_def)

lemma apply_operation_capacity:
  assumes "apply_operation op m = Inr m'"
      and "n_watermarks m = max_n_transfers m * n_watermarks_per_transfer m + 1"
  shows "capacity m' = capacity m"
proof (cases op)
  case Initialise
  then show ?thesis
    using assms
    by (auto simp: capacity_def initialise_trap_states_def store_trap_states_def Let_def)
next
  case (ReleaseAndCapture n)
  then show ?thesis
    using assms
    by (auto simp: then_do_eq_Inr
             dest!: n_electrons_released_and_captured_configuration configuration_capacity)
next
  case (SetFillProbabilities dt)
  then show ?thesis
    using assms by (auto dest: set_fill_probabilities_capacity)
qed (use assms in \<open>auto simp: capacity_def reset_trap_states_def store_trap_states_def
      restore_trap_states_def\<close>)

lemma apply_operations_capacity:
  assumes "apply_operations ops m = Inr m'"
      and "n_watermarks m = max_n_transfers m * n_watermarks_per_transfer m + 1"
  shows "capacity m' = capacity m"
  using assms
proof (induction ops arbitrary: m)
  case Nil
  then show ?case by simp
next
  case (Cons op ops)
  from Cons.prems(1) obtain m1 where m1: "apply_operation op m = Inr m1"
    and rest: "apply_operations ops m1 = Inr m'"
    by (auto split: sum.splits)
  have c1: "capacity m1 = capacity m"
    using apply_operation_capacity [OF m1 Cons.prems(2)] .
  then have "n_watermarks m1 = max_n_transfers m1 * n_watermarks_per_transfer m1 + 1"
    using Cons.prems(2) by (simp add: capacity_def)
  from Cons.IH [OF rest this] c1 show ?case by simp
qed

lemma initialise_trap_states_capacity_formula:
  "n_watermarks (initialise_trap_states m0)
     = max_n_transfers (initialise_trap_states m0)
         * n_watermarks_per_transfer (initialise_trap_states m0) + 1"
  by (simp add: initialise_trap_states_def store_trap_states_def Let_def)

lemma reset_equals_initialised:
  assumes a0: "n_active_watermarks m0 = 0" and f0: "i_first_active_wmk m0 = 0"
      and cap: "capacity m = capacity (initialise_trap_states m0)"
  shows "reset_trap_states m =
           (initialise_trap_states m0)
             \<lparr> stored_n_active_watermarks := stored_n_active_watermarks m,
               stored_i_first_active_wmk := stored_i_first_active_wmk m,
               stored_watermark_volumes := stored_watermark_volumes m,
               stored_watermark_fills := stored_watermark_fills m,
               fill_probabilities_from_empty := fill_probabilities_from_empty m,
               fill_probabilities_from_full := fill_probabilities_from_full m,
               fill_probabilities_from_release := fill_probabilities_from_release m,
               empty_probabilities_from_release := empty_probabilities_from_release m \<rparr>"
proof -
  from cap have fields: "traps m = traps m0" "max_n_transfers m = max_n_transfers m0"
    "ccd m = ccd m0" "n_traps m = n_traps m0"
    "n_watermarks_per_transfer m = n_watermarks_per_transfer m0"
    "empty_watermark m = empty_watermark m0"
    "n_watermarks m = max_n_transfers m0 * n_watermarks_per_transfer m0 + 1"
    by (simp_all add: capacity_def initialise_trap_states_def store_trap_states_def Let_def)
  show ?thesis
    by (rule TrapManager.equality)
       (simp_all add: fields a0 f0 reset_trap_states_def initialise_trap_states_def
          store_trap_states_def Let_def)
qed

lemmas setup_defs = then_do_def rd_def wr_def total_rate_def exponential_factor_def
  set_fill_probabilities_from_dwell_time_def TrapManager_new_def
  TrapManagerInstantCapture_new_def store_trap_states_def initialise_trap_states_def
  upto.simps exp_minus


lemma mB0_setup: "set_fill_probabilities_from_dwell_time mB_new (ln (5 / 4)) = Inr mB0"
  by (simp add: mB0_def mB_new_def trapB_def demo_ccd_def setup_defs)

lemma mC0_setup: "set_fill_probabilities_from_dwell_time mC_new (ln 2) = Inr mC0"
  by (simp add: mC0_def mC_new_def trapC_def demo_ccd_def setup_defs)

lemma releaseA3: "n_electrons_released sA3 = Inr (875 / 4, sA3r)"
  unfolding column_defs by code_simp

lemma releaseB4: "n_electrons_released sB4 = Inr (400, sB4r)"
  unfolding column_defs by code_simp

lemma releaseC3: "n_electrons_released sC3 = Inr (500, sC3r)"
  unfolding column_defs by code_simp

section \<open>The cells above the active window\<close>


















lemma empty_from_index_updates [simp]:
  "empty_from e (m \<lparr> n_active_watermarks := a \<rparr>) = empty_from e m"
  "empty_from e (m \<lparr> i_first_active_wmk := b \<rparr>) = empty_from e m"
  by (simp_all add: empty_from_def)

lemma window_updates [simp]:
  "window (m \<lparr> watermark_volumes := v \<rparr>) = window m"
  "window (m \<lparr> watermark_fills := w \<rparr>) = window m"
  by (simp_all add: window_def)


















lemma n_electrons_released_window:
  "n_electrons_released m = Inr (r, m1) \<Longrightarrow> window m1 = window m"
  by (auto simp: n_electrons_released_def then_do_eq_Inr)











section \<open>The claims\<close>

text \<open>
  C1.  The index above the cloud: the smallest active watermark whose cumulative
  volume strictly exceeds the cloud volume and, when there is none,
  \<^verbatim>\<open>i_first_active_wmk + n_active_watermarks\<close>, also where \<^verbatim>\<open>i_first_active_wmk > 0\<close>.
  The source falls through to \<^verbatim>\<open>return n_active_watermarks\<close>.  Column A reaches, after
  the pixels 400, 100, 800 and the release of the fourth call, a state with one active
  watermark at index 1, of cumulative volume 7/8; the fourth cloud has volume 1; the
  function returns 1, the index of that watermark, where the claim says 2.
\<close>

theorem C1_index_above_cloud_with_skipped_watermarks:
  "release_and_capture_all mA0 [400, 100, 800] = Inr ([- 200, 50, - (575 / 2)], sA3)
   \<and> n_electrons_released sA3 = Inr (875 / 4, sA3r)
   \<and> cloud_fractional_volume_from_electrons (ccd sA3r) (800 + 875 / 4) = 1
   \<and> i_first_active_wmk sA3r = 1 \<and> n_active_watermarks sA3r = 1
   \<and> sum_volumes sA3r 1 1 = Inr (7 / 8)
   \<and> watermark_index_above_cloud_from_volumes sA3r (watermark_volumes sA3r) 1 = Inr 1
   \<and> i_first_active_wmk sA3r + n_active_watermarks sA3r = 2"
proof -
  have "cloud_fractional_volume_from_electrons (ccd sA3r) (800 + 875 / 4) = 1"
    unfolding column_defs by code_simp
  moreover have "sum_volumes sA3r 1 1 = Inr (7 / 8)"
    unfolding column_defs by code_simp
  moreover have "watermark_index_above_cloud_from_volumes sA3r (watermark_volumes sA3r) 1 = Inr 1"
    unfolding column_defs by code_simp
  moreover have "i_first_active_wmk sA3r = 1" "n_active_watermarks sA3r = 1"
    by (simp_all add: sA3r_def)
  ultimately show ?thesis
    using columnA_3 releaseA3 by simp
qed

text \<open>
  C2.  Electron conservation across one call of
  \<^verbatim>\<open>n_electrons_released_and_captured\<close>: the value returned is released minus
  captured, and the trapped electrons grow by captured minus released.  In column B the
  fifth call (pixel 700, after 700, 900, 100, 700) releases 400 electrons, counts 0
  captured and returns 400, while the electrons held in the watermarks go from 2000 to
  7600/3: they grow by 1600/3 where the claim says they shrink by 400.
\<close>

theorem C2_conservation_fails_in_column_B:
  "release_and_capture_all mB0 [700, 900, 100, 700] = Inr ([- 700, - 900, 40, - 440], sB4)
   \<and> n_trapped_electrons_from_watermarks sB4 (watermark_volumes sB4) (watermark_fills sB4) = Inr 2000
   \<and> n_electrons_released sB4 = Inr (400, sB4r)
   \<and> n_electrons_captured sB4r (700 + 400) = Inr (0, sB5)
   \<and> n_electrons_released_and_captured sB4 700 = Inr (400, sB5)
   \<and> n_trapped_electrons_from_watermarks sB5 (watermark_volumes sB5) (watermark_fills sB5)
         = Inr (7600 / 3)
   \<and> (7600 / 3 - 2000 :: real) \<noteq> 0 - 400"
proof -
  have "n_trapped_electrons_from_watermarks sB4 (watermark_volumes sB4) (watermark_fills sB4) = Inr 2000"
    unfolding column_defs by code_simp
  moreover have "n_electrons_captured sB4r (700 + 400) = Inr (0, sB5)"
    unfolding column_defs by code_simp
  moreover have "n_trapped_electrons_from_watermarks sB5 (watermark_volumes sB5) (watermark_fills sB5)
         = Inr (7600 / 3)"
    unfolding column_defs by code_simp
  ultimately show ?thesis
    using columnB_4 releaseB4 stepB5 by simp
qed

text \<open>
  C3.  From the initialised state, after every call every active watermark volume is in
  [0, 1] and the active volumes sum to at most 1 (plus round-off).  Column A, whose
  clouds have the volumes 2/5, 1/5, 7/8 and 1, ends after its fourth pixel with the
  active watermarks 0 and 1, the second of volume -1/8.
\<close>

theorem C3_negative_volume_in_column_A:
  "release_and_capture_all mA0 [400, 100, 800, 800]
     = Inr ([- 200, 50, - (575 / 2), - (125 / 4)], sA4)
   \<and> i_first_active_wmk sA4 = 0 \<and> n_active_watermarks sA4 = 2
   \<and> watermark_volumes sA4 ! 1 = - (1 / 8)
   \<and> \<not> (0 \<le> watermark_volumes sA4 ! 1)"
  using columnA_4 by (simp add: sA4_def)

text \<open>
  C4.  From the initialised state, after every call every fill fraction of every active
  watermark is in [0, 1].  Column B ends after its sixth pixel with four active
  watermarks whose fills are -9, -83/3, -17 and -49.
\<close>

theorem C4_negative_fills_in_column_B:
  "release_and_capture_all mB0 [700, 900, 100, 700, 700, 800]
     = Inr ([- 700, - 900, 40, - 440, 400, - 800], sB6)
   \<and> i_first_active_wmk sB6 = 0 \<and> n_active_watermarks sB6 = 4 \<and> n_traps sB6 = 1
   \<and> watermark_fills sB6 = [- 9, - (83 / 3), - 17, - 49, 0, 0, 0]
   \<and> \<not> (0 \<le> watermark_fills sB6 ! 0)"
  using columnB_6 by (simp add: sB6_def mB0_def mB_new_def initialise_trap_states_def
      store_trap_states_def TrapManagerInstantCapture_new_def TrapManager_new_def)





text \<open>
  C8.  With capacity \<^verbatim>\<open>max_n_transfers + 1\<close>, at most \<^verbatim>\<open>max_n_transfers\<close> calls keep
  every access to the two arrays in range, the copy-paste shift loops included.
  Column C has \<^verbatim>\<open>max_n_transfers = 4\<close> and arrays of 5 cells.  Its fourth call (pixel
  200, after 800, 200, 0) is a partial capture between the watermarks, with the index 2
  above the cloud; the shift loop starts at 2 - 1 + 3 - 0 = 4 and writes cell 5.
\<close>

theorem C8_shift_loop_leaves_the_arrays_in_column_C:
  "max_n_transfers mC0 = 4 \<and> n_watermarks_per_transfer mC0 = 1 \<and> n_watermarks mC0 = 5
   \<and> release_and_capture_all mC0 [800, 200, 0] = Inr ([- 800, - 200, 0], sC3)
   \<and> length (watermark_volumes sC3) = 5
   \<and> n_electrons_released sC3 = Inr (500, sC3r)
   \<and> cloud_fractional_volume_from_electrons (ccd sC3r) (200 + 500) = 7 / 10
   \<and> capture_quotient sC3r (7 / 10) (200 + 500) = Inr (2, 1825 / 2, Finite (56 / 73))
   \<and> copy_watermarks_up sC3r 2 (2 - 1 + n_active_watermarks sC3r - i_first_active_wmk sC3r)
         = Inl OutOfRange
   \<and> n_electrons_released_and_captured sC3 200 = Inl OutOfRange
   \<and> release_and_capture_all mC0 [800, 200, 0, 200] = Inl OutOfRange"
proof -
  have "max_n_transfers mC0 = 4" "n_watermarks_per_transfer mC0 = 1" "n_watermarks mC0 = 5"
    "length (watermark_volumes sC3) = 5"
    by (simp_all add: sC3_def mC0_def mC_new_def initialise_trap_states_def
        store_trap_states_def TrapManagerInstantCapture_new_def TrapManager_new_def)
  moreover have "cloud_fractional_volume_from_electrons (ccd sC3r) (200 + 500) = 7 / 10"
    unfolding column_defs by code_simp
  moreover have "capture_quotient sC3r (7 / 10) (200 + 500) = Inr (2, 1825 / 2, Finite (56 / 73))"
    unfolding column_defs by code_simp
  moreover have "copy_watermarks_up sC3r 2 (2 - 1 + n_active_watermarks sC3r - i_first_active_wmk sC3r)
         = Inl OutOfRange"
    unfolding column_defs by code_simp
  ultimately show ?thesis
    using columnC_3 columnC_4 releaseC3 stepC4 by simp
qed

text \<open>
  C10.  The quotient \<^verbatim>\<open>enough = n_free_electrons / n_captured\<close> has no guard, and there
  are valid inputs with a cloud of positive volume and \<^verbatim>\<open>n_captured = 0\<close>, where the
  quotient is not finite: a species of density 0 on the empty manager (pixel 500, cloud
  1/2), and the watermark of column A after its first pixel, which is exactly full
  (\<^verbatim>\<open>n_electrons_captured(300)\<close>, cloud 3/10).
\<close>

theorem C10_divisor_zero_with_positive_cloud:
  "cloud_fractional_volume_from_electrons (ccd mZ0) 500 = 1 / 2
   \<and> capture_quotient mZ0 (1 / 2) 500 = Inr (0, 0, PlusInfinity)
   \<and> release_and_capture_all mA0 [400] = Inr ([- 200], sA1)
   \<and> cloud_fractional_volume_from_electrons (ccd sA1) 300 = 3 / 10
   \<and> capture_quotient sA1 (3 / 10) 300 = Inr (0, 0, PlusInfinity)
   \<and> divide_double 300 0 = PlusInfinity"
proof -
  have "cloud_fractional_volume_from_electrons (ccd mZ0) 500 = 1 / 2"
    unfolding column_defs by code_simp
  moreover have "capture_quotient mZ0 (1 / 2) 500 = Inr (0, 0, PlusInfinity)"
    unfolding column_defs by code_simp
  moreover have "cloud_fractional_volume_from_electrons (ccd sA1) 300 = 3 / 10"
    unfolding column_defs by code_simp
  moreover have "capture_quotient sA1 (3 / 10) 300 = Inr (0, 0, PlusInfinity)"
    unfolding column_defs by code_simp
  moreover have "divide_double 300 0 = PlusInfinity"
    by (simp add: divide_double_def)
  ultimately show ?thesis
    using stepA1 by simp
qed

text \<open>
  C9.  For every species and dwell time, with \<open>R = capture_rate + emission_rate\<close>,
  \<^verbatim>\<open>set_fill_probabilities_from_dwell_time\<close> sets the fill probability from empty to 1
  when \<open>capture_rate = 0\<close> and to \<open>capture_rate * (1 - exp (- R * dt)) / R\<close> otherwise, the
  fill probability from full to \<open>1 - emission_rate * (1 - exp (- R * dt)) / R\<close>, the one from
  release to \<open>exp (- emission_rate * dt)\<close> and the empty probability from release to 1 minus
  that.  Species have a non-negative capture rate and a positive emission rate (the
  timescales are positive), so that \<open>R\<close> is not 0.
\<close>

theorem C9_fill_probabilities_from_dwell_time:
  assumes n: "n_traps m = int (length (traps m))"
      and rates: "\<forall>t \<in> set (traps m). 0 \<le> capture_rate t \<and> 0 < emission_rate t"
  shows "\<exists>m'. set_fill_probabilities_from_dwell_time m dwell_time = Inr m' \<and>
           (\<forall>i < length (traps m).
              fill_probabilities_from_empty m' ! i =
                (if capture_rate (traps m ! i) = 0 then 1
                 else capture_rate (traps m ! i) *
                        ((1 - exp (- (capture_rate (traps m ! i) + emission_rate (traps m ! i)) * dwell_time))
                           / (capture_rate (traps m ! i) + emission_rate (traps m ! i)))) \<and>
              fill_probabilities_from_full m' ! i =
                1 - emission_rate (traps m ! i) *
                        ((1 - exp (- (capture_rate (traps m ! i) + emission_rate (traps m ! i)) * dwell_time))
                           / (capture_rate (traps m ! i) + emission_rate (traps m ! i))) \<and>
              fill_probabilities_from_release m' ! i = exp (- emission_rate (traps m ! i) * dwell_time) \<and>
              empty_probabilities_from_release m' ! i = 1 - fill_probabilities_from_release m' ! i)"
proof -
  have nz: "\<forall>t \<in> set (traps m). \<not> (total_rate t = 0)"
    using rates by (fastforce simp: total_rate_def)
  have len: "nat (n_traps m) = length (traps m)" using n by simp
  note loop = four_arrays_loop [OF nz order_refl,
      of "\<lambda>t. if capture_rate t = 0 then 1 else capture_rate t * exponential_factor t dwell_time"
         "\<lambda>t. 1 - emission_rate t * exponential_factor t dwell_time"
         "\<lambda>t. exp (- emission_rate t * dwell_time)"]
  have eq: "set_fill_probabilities_from_dwell_time m dwell_time =
      Inr (m \<lparr> fill_probabilities_from_empty :=
                   filled_upto (\<lambda>t. if capture_rate t = 0 then 1
                                     else capture_rate t * exponential_factor t dwell_time)
                     (traps m) (length (traps m)),
                 fill_probabilities_from_full :=
                   filled_upto (\<lambda>t. 1 - emission_rate t * exponential_factor t dwell_time)
                     (traps m) (length (traps m)),
                 fill_probabilities_from_release :=
                   filled_upto (\<lambda>t. exp (- emission_rate t * dwell_time))
                     (traps m) (length (traps m)),
                 empty_probabilities_from_release :=
                   filled_upto (\<lambda>t. 1 - exp (- emission_rate t * dwell_time))
                     (traps m) (length (traps m)) \<rparr>)"
    unfolding set_fill_probabilities_from_dwell_time_def Let_def n nat_int
    by (simp only: loop then_do_Inr prod.case)
  show ?thesis
    unfolding eq
    by (intro exI conjI allI impI, rule refl)
       (simp_all add: filled_upto_nth exponential_factor_def total_rate_def)
qed


theorem C9_fill_probabilities_from_dwell_time_witness:
  "n_traps mA_new = int (length (traps mA_new))
   \<and> traps mA_new = [trapA] \<and> 0 \<le> capture_rate trapA \<and> 0 < emission_rate trapA
   \<and> (\<exists>m'. set_fill_probabilities_from_dwell_time mA_new (ln 2) = Inr m'
          \<and> fill_probabilities_from_empty m' ! 0 = 1
          \<and> fill_probabilities_from_full m' ! 0 = 1 / 2
          \<and> fill_probabilities_from_release m' ! 0 = 1 / 2
          \<and> empty_probabilities_from_release m' ! 0 = 1 / 2)"
proof -
  have fields: "traps mA_new = [trapA]" "n_traps mA_new = 1"
    by (simp_all add: mA_new_def initialise_trap_states_def store_trap_states_def Let_def
        TrapManagerInstantCapture_new_def TrapManager_new_def)
  have h1: "n_traps mA_new = int (length (traps mA_new))"
    by (simp add: fields)
  have h2: "\<forall>t \<in> set (traps mA_new). 0 \<le> capture_rate t \<and> 0 < emission_rate t"
    by (simp add: fields trapA_def)
  from C9_fill_probabilities_from_dwell_time [OF h1 h2, of "ln 2"]
  obtain m' where "set_fill_probabilities_from_dwell_time mA_new (ln 2) = Inr m'"
    and "fill_probabilities_from_empty m' ! 0 = 1"
    and "fill_probabilities_from_full m' ! 0 = 1 / 2"
    and "fill_probabilities_from_release m' ! 0 = 1 / 2"
    and "empty_probabilities_from_release m' ! 0 = 1 / 2"
    by (auto simp: fields trapA_def exp_minus)
  with h1 fields show ?thesis
    by (auto simp: trapA_def)
qed

lemma stepA1_fresh:
  "n_electrons_released_and_captured mA_new 400
     = Inr (- 200, mA_new \<lparr> n_active_watermarks := 1,
                           watermark_volumes := [2 / 5, 0, 0, 0, 0],
                           watermark_fills := [1, 0, 0, 0, 0] \<rparr>)"
  unfolding column_defs by code_simp

lemma reach_tA1: "apply_operations [ReleaseAndCapture 400, Store] mA_new = Inr tA1"
proof -
  have "store_trap_states (mA_new \<lparr> n_active_watermarks := 1,
                           watermark_volumes := [2 / 5, 0, 0, 0, 0],
                           watermark_fills := [1, 0, 0, 0, 0] \<rparr>) = tA1"
    unfolding column_defs by code_simp
  then show ?thesis
    by (simp add: stepA1_fresh)
qed

lemma stepA2_stored: "n_electrons_released_and_captured (store_trap_states sA1) 100 = Inr (50, tA2)"
  unfolding column_defs by code_simp

text \<open>
  C6.  As stated --- \<^verbatim>\<open>reset()\<close> leaves a manager that no later operation sequence,
  \<^verbatim>\<open>restore_trap_states()\<close> included, can tell from a freshly initialised one --- the claim
  fails: \<^verbatim>\<open>initialise_trap_states\<close> stores the empty state, \<^verbatim>\<open>reset_trap_states\<close> keeps
  the stored one.  After the pixel 400 and a store, reset followed by restore has one
  active watermark, initialise followed by restore has none.
\<close>

theorem C6_restore_tells_reset_from_initialise:
  "apply_operations [ReleaseAndCapture 400, Store] mA_new = Inr tA1
   \<and> watermark_state (restore_trap_states (reset_trap_states tA1))
         = ([2 / 5, 0, 0, 0, 0], [1, 0, 0, 0, 0], 1, 0)
   \<and> watermark_state (restore_trap_states mA_new) = ([0, 0, 0, 0, 0], [0, 0, 0, 0, 0], 0, 0)
   \<and> watermark_state (restore_trap_states (reset_trap_states tA1))
         \<noteq> watermark_state (restore_trap_states mA_new)"
proof -
  have "watermark_state (restore_trap_states (reset_trap_states tA1))
         = ([2 / 5, 0, 0, 0, 0], [1, 0, 0, 0, 0], 1, 0)"
    unfolding column_defs by code_simp
  moreover have "watermark_state (restore_trap_states mA_new)
         = ([0, 0, 0, 0, 0], [0, 0, 0, 0, 0], 0, 0)"
    unfolding column_defs by code_simp
  ultimately show ?thesis
    using reach_tA1 by simp
qed

text \<open>
  C6, amended.  For every manager, of the base class or of
  \<^verbatim>\<open>TrapManagerInstantCapture\<close>, and every state \<open>m\<close> of the same capacity as the
  freshly initialised manager --- every state reached from it by the public operations,
  and every other state with its capacity members --- \<^verbatim>\<open>reset()\<close> yields that fresh
  manager in every member but the stored snapshot and the fill probabilities, which it
  leaves as they are: the two buffers and the two indices are those of the fresh
  manager, and the stored snapshot is untouched.
\<close>

theorem C6_reset_equals_fresh_except_snapshot:
  assumes fresh: "m0 = TrapManager_new ts max_n c \<or> m0 = TrapManagerInstantCapture_new ts max_n c"
      and state: "apply_operations ops (initialise_trap_states m0) = Inr m
                  \<or> capacity m = capacity (initialise_trap_states m0)"
  shows "reset_trap_states m =
           (initialise_trap_states m0)
             \<lparr> stored_n_active_watermarks := stored_n_active_watermarks m,
               stored_i_first_active_wmk := stored_i_first_active_wmk m,
               stored_watermark_volumes := stored_watermark_volumes m,
               stored_watermark_fills := stored_watermark_fills m,
               fill_probabilities_from_empty := fill_probabilities_from_empty m,
               fill_probabilities_from_full := fill_probabilities_from_full m,
               fill_probabilities_from_release := fill_probabilities_from_release m,
               empty_probabilities_from_release := empty_probabilities_from_release m \<rparr>
         \<and> watermark_state (reset_trap_states m) = watermark_state (initialise_trap_states m0)
         \<and> stored_watermark_volumes (reset_trap_states m) = stored_watermark_volumes m
         \<and> stored_watermark_fills (reset_trap_states m) = stored_watermark_fills m
         \<and> stored_n_active_watermarks (reset_trap_states m) = stored_n_active_watermarks m
         \<and> stored_i_first_active_wmk (reset_trap_states m) = stored_i_first_active_wmk m"
proof -
  from fresh have zero: "n_active_watermarks m0 = 0" "i_first_active_wmk m0 = 0"
    by (auto simp: TrapManager_new_def TrapManagerInstantCapture_new_def)
  from state have cap: "capacity m = capacity (initialise_trap_states m0)"
    using apply_operations_capacity [OF _ initialise_trap_states_capacity_formula] by blast
  from reset_equals_initialised [OF zero cap] show ?thesis
    by (simp add: watermark_state_def)
qed


theorem C6_reset_equals_fresh_except_snapshot_witness:
  "apply_operations [Store] (initialise_trap_states (TrapManager_new [trapA] 4 demo_ccd))
     = Inr (store_trap_states mBase_new)
   \<and> watermark_state (reset_trap_states (store_trap_states mBase_new))
       = ([0, 0, 0, 0, 0, 0, 0, 0, 0], [0, 0, 0, 0, 0, 0, 0, 0, 0], 0, 0)
   \<and> apply_operations [ReleaseAndCapture 400, Store]
       (initialise_trap_states (TrapManagerInstantCapture_new [trapA] 4 demo_ccd)) = Inr tA1
   \<and> watermark_state (reset_trap_states tA1) = ([0, 0, 0, 0, 0], [0, 0, 0, 0, 0], 0, 0)
   \<and> stored_watermark_volumes (reset_trap_states tA1) = [2 / 5, 0, 0, 0, 0]
   \<and> stored_n_active_watermarks (reset_trap_states tA1) = 1"
proof -
  have base: "TrapManager_new [trapA] 4 demo_ccd = TrapManager_new [trapA] 4 demo_ccd
      \<or> TrapManager_new [trapA] 4 demo_ccd = TrapManagerInstantCapture_new [trapA] 4 demo_ccd"
    by simp
  have rb: "apply_operations [Store] (initialise_trap_states (TrapManager_new [trapA] 4 demo_ccd))
      = Inr (store_trap_states mBase_new)"
    by (simp add: mBase_new_def)
  note tb = C6_reset_equals_fresh_except_snapshot [OF base disjI1 [OF rb]]
  have fb: "watermark_state (initialise_trap_states (TrapManager_new [trapA] 4 demo_ccd))
          = ([0, 0, 0, 0, 0, 0, 0, 0, 0], [0, 0, 0, 0, 0, 0, 0, 0, 0], 0, 0)"
    unfolding column_defs by code_simp
  from tb have "watermark_state (reset_trap_states (store_trap_states mBase_new))
      = watermark_state (initialise_trap_states (TrapManager_new [trapA] 4 demo_ccd))"
    by blast
  with fb have wb: "watermark_state (reset_trap_states (store_trap_states mBase_new))
       = ([0, 0, 0, 0, 0, 0, 0, 0, 0], [0, 0, 0, 0, 0, 0, 0, 0, 0], 0, 0)"
    by (simp only:)
  have inst: "TrapManagerInstantCapture_new [trapA] 4 demo_ccd = TrapManager_new [trapA] 4 demo_ccd
      \<or> TrapManagerInstantCapture_new [trapA] 4 demo_ccd
          = TrapManagerInstantCapture_new [trapA] 4 demo_ccd"
    by simp
  have r: "apply_operations [ReleaseAndCapture 400, Store]
       (initialise_trap_states (TrapManagerInstantCapture_new [trapA] 4 demo_ccd)) = Inr tA1"
    using reach_tA1 by (simp only: mA_new_def)
  note t = C6_reset_equals_fresh_except_snapshot [OF inst disjI1 [OF r]]
  have f: "watermark_state (initialise_trap_states (TrapManagerInstantCapture_new [trapA] 4 demo_ccd))
          = ([0, 0, 0, 0, 0], [0, 0, 0, 0, 0], 0, 0)"
    unfolding column_defs by code_simp
  have s: "stored_watermark_volumes tA1 = [2 / 5, 0, 0, 0, 0]"
    "stored_n_active_watermarks tA1 = 1"
    by (simp_all add: tA1_def)
  from t have "watermark_state (reset_trap_states tA1)
      = watermark_state (initialise_trap_states (TrapManagerInstantCapture_new [trapA] 4 demo_ccd))"
    by blast
  with f have w: "watermark_state (reset_trap_states tA1) = ([0, 0, 0, 0, 0], [0, 0, 0, 0, 0], 0, 0)"
    by (simp only:)
  from t have "stored_watermark_volumes (reset_trap_states tA1) = stored_watermark_volumes tA1"
    "stored_n_active_watermarks (reset_trap_states tA1) = stored_n_active_watermarks tA1"
    by blast+
  with s have v: "stored_watermark_volumes (reset_trap_states tA1) = [2 / 5, 0, 0, 0, 0]"
    "stored_n_active_watermarks (reset_trap_states tA1) = 1"
    by (simp_all only:)
  from rb wb r w v show ?thesis
    by blast
qed

text \<open>
  Store, one operation, restore.  Reset and every release-and-capture that stays inside
  the arrays leave the stored snapshot alone, so that
  \<^verbatim>\<open>store_trap_states(); op; restore_trap_states()\<close> brings back the complete watermark
  state, and a second restore changes nothing.
\<close>

lemma store_operation_restore:
  assumes op: "op = Reset \<or> (\<exists>n_free_electrons. op = ReleaseAndCapture n_free_electrons)"
      and run: "apply_operation op (store_trap_states x) = Inr m'"
  shows "watermark_state (restore_trap_states m') = watermark_state x
         \<and> restore_trap_states (restore_trap_states m') = restore_trap_states m'"
proof -
  have "configuration m' = configuration (store_trap_states x)"
    using op run
    by (auto simp: then_do_eq_Inr reset_trap_states_configuration
             dest: n_electrons_released_and_captured_configuration)
  then have "stored_watermark_volumes m' = watermark_volumes x"
    "stored_watermark_fills m' = watermark_fills x"
    "stored_n_active_watermarks m' = n_active_watermarks x"
    "stored_i_first_active_wmk m' = i_first_active_wmk x"
    by (simp_all add: configuration_fields [of m'] ) (simp_all add: configuration_def store_trap_states_def)
  then show ?thesis
    by (simp add: watermark_state_def restore_trap_states_def)
qed



lemma store_operation_restore_at_sA1:
  "(ReleaseAndCapture 100 = Reset \<or> (\<exists>n. ReleaseAndCapture 100 = ReleaseAndCapture n))
   \<and> apply_operation (ReleaseAndCapture 100) (store_trap_states sA1) = Inr tA2
   \<and> watermark_state tA2 = ([1 / 5, 1 / 5, 0, 0, 0], [1, 1 / 2, 0, 0, 0], 2, 0)
   \<and> watermark_state (restore_trap_states tA2) = ([2 / 5, 0, 0, 0, 0], [1, 0, 0, 0, 0], 1, 0)
   \<and> watermark_state sA1 = ([2 / 5, 0, 0, 0, 0], [1, 0, 0, 0, 0], 1, 0)
   \<and> restore_trap_states (restore_trap_states tA2) = restore_trap_states tA2"
proof -
  have op: "ReleaseAndCapture 100 = Reset \<or> (\<exists>n. ReleaseAndCapture 100 = ReleaseAndCapture n)"
    by simp
  have run: "apply_operation (ReleaseAndCapture 100) (store_trap_states sA1) = Inr tA2"
    by (simp add: stepA2_stored)
  note t = store_operation_restore [OF op run]
  have x: "watermark_state sA1 = ([2 / 5, 0, 0, 0, 0], [1, 0, 0, 0, 0], 1, 0)"
    by (simp add: watermark_state_def sA1_def)
  have y: "watermark_state tA2 = ([1 / 5, 1 / 5, 0, 0, 0], [1, 1 / 2, 0, 0, 0], 2, 0)"
    by (simp add: watermark_state_def sA2_def tA2_def)
  from t x have z: "watermark_state (restore_trap_states tA2)
      = ([2 / 5, 0, 0, 0, 0], [1, 0, 0, 0, 0], 1, 0)"
    by (simp only:)
  from t have "restore_trap_states (restore_trap_states tA2) = restore_trap_states tA2"
    by blast
  with op run x y z show ?thesis
    by blast
qed




end
